theory Spec2Isabelle
  imports Complex_Main
begin

section \<open>Python values used by the request handlers\<close>

text \<open>
  The handlers of \<^verbatim>\<open>backend/app/routes\<close> read JSON bodies, convert values with
  Python's \<^verbatim>\<open>int\<close>, test them for truthiness and trim strings with
  \<^verbatim>\<open>str.strip\<close>. These builtins are written out here for ASCII text. Numbers that are
  not integers (JSON floats, prices, totals) are exact rationals: IEEE rounding error and the
  special values NaN and infinity are outside the model.
\<close>

datatype json =
    JNull
  | JBool bool
  | JInt int
  | JNum rat
  | JStr string
  | JArr "json list"
  | JObj "(string \<times> json) list"

text \<open>Truthiness of a Python value (\<^verbatim>\<open>not x\<close> is its negation).\<close>

fun truthy :: "json \<Rightarrow> bool" where
  "truthy JNull = False"
| "truthy (JBool b) = b"
| "truthy (JInt n) = (n \<noteq> 0)"
| "truthy (JNum x) = (x \<noteq> 0)"
| "truthy (JStr s) = (s \<noteq> [])"
| "truthy (JArr xs) = (xs \<noteq> [])"
| "truthy (JObj kvs) = (kvs \<noteq> [])"

text \<open>The ASCII characters that \<^verbatim>\<open>str.isspace\<close> accepts.\<close>

definition is_space :: "char \<Rightarrow> bool" where
  "is_space c = (let n = (of_char c :: nat) in (9 \<le> n \<and> n \<le> 13) \<or> (28 \<le> n \<and> n \<le> 32))"

definition py_strip :: "string \<Rightarrow> string" where
  "py_strip s = rev (dropWhile is_space (rev (dropWhile is_space s)))"

definition digit_val :: "char \<Rightarrow> nat option" where
  "digit_val c = (let n = (of_char c :: nat) in if 48 \<le> n \<and> n \<le> 57 then Some (n - 48) else None)"

text \<open>
  Decimal digits with single underscores between digits, as \<^verbatim>\<open>int(str)\<close> accepts them.
  The flag says whether the previous character was a digit.
\<close>

fun py_digits :: "nat \<Rightarrow> bool \<Rightarrow> string \<Rightarrow> nat option" where
  "py_digits acc prev [] = (if prev then Some acc else None)"
| "py_digits acc prev (c # cs) =
     (if c = CHR ''_'' then (if prev \<and> cs \<noteq> [] then py_digits acc False cs else None)
      else (case digit_val c of
              None \<Rightarrow> None
            | Some d \<Rightarrow> py_digits (acc * 10 + d) True cs))"

text \<open>\<^verbatim>\<open>int(s)\<close> for a string: \<open>None\<close> stands for \<^verbatim>\<open>ValueError\<close>.\<close>

definition py_int_str :: "string \<Rightarrow> int option" where
  "py_int_str s =
     (case py_strip s of
        [] \<Rightarrow> None
      | c # cs \<Rightarrow>
          if c = CHR ''-'' then map_option (\<lambda>n. - int n) (py_digits 0 False cs)
          else if c = CHR ''+'' then map_option int (py_digits 0 False cs)
          else map_option int (py_digits 0 False (c # cs)))"

text \<open>
  \<^verbatim>\<open>int(v)\<close> for a JSON value: \<open>None\<close> stands for \<^verbatim>\<open>ValueError\<close> or
  \<^verbatim>\<open>TypeError\<close>, which the handlers catch together. A float is truncated towards zero.
\<close>

fun py_int :: "json \<Rightarrow> int option" where
  "py_int JNull = None"
| "py_int (JBool b) = Some (if b then 1 else 0)"
| "py_int (JInt n) = Some n"
| "py_int (JNum x) = Some (if 0 \<le> x then \<lfloor>x\<rfloor> else \<lceil>x\<rceil>)"
| "py_int (JStr s) = py_int_str s"
| "py_int (JArr xs) = None"
| "py_int (JObj kvs) = None"

definition digit_char :: "nat \<Rightarrow> char" where
  "digit_char d = char_of (48 + d)"

fun nat_digits :: "nat \<Rightarrow> string" where
  "nat_digits n = (if n < 10 then [digit_char n] else nat_digits (n div 10) @ [digit_char (n mod 10)])"

text \<open>\<^verbatim>\<open>str(n)\<close> for an integer.\<close>

definition py_str_int :: "int \<Rightarrow> string" where
  "py_str_int n = (if n < 0 then CHR ''-'' # nat_digits (nat (- n)) else nat_digits (nat n))"

text \<open>
  \<^verbatim>\<open>round(x, 2)\<close>: to the nearest multiple of one hundredth, a tie going to the even
  neighbour.
\<close>

definition round2 :: "rat \<Rightarrow> rat" where
  "round2 x =
     (let y = x * 100; f = \<lfloor>y\<rfloor>; d = y - of_int f
      in of_int (if d < 1 / 2 then f else if 1 / 2 < d then f + 1 else if even f then f else f + 1) / 100)"

text \<open>
  A JSON request body as \<^verbatim>\<open>request.get_json()\<close> hands it over: \<open>None\<close> when there is
  none, else the key-value pairs of the JSON object. \<^verbatim>\<open>data.get(k)\<close> is \<open>dict_get\<close>.
\<close>

type_synonym body = "(string \<times> json) list option"

definition dict_get :: "(string \<times> json) list \<Rightarrow> string \<Rightarrow> json" where
  "dict_get kvs k = (case map_of kvs k of None \<Rightarrow> JNull | Some v \<Rightarrow> v)"

definition dict_get_default :: "(string \<times> json) list \<Rightarrow> string \<Rightarrow> json \<Rightarrow> json" where
  "dict_get_default kvs k d = (case map_of kvs k of None \<Rightarrow> d | Some v \<Rightarrow> v)"

section \<open>The store\<close>

text \<open>
  The tables of the relational store, one record per row class and a list of rows per table,
  in insertion order. Primary keys come from a counter per table and are never reused. A
  handler that returns without committing, or rolls back, leaves the store as it was.
\<close>

record user =
  u_id :: int
  u_email :: string
  u_username :: string
  u_password_hash :: string
  u_profile_image :: json

record product =
  p_id :: int
  p_title :: string
  p_description :: string
  p_category :: string
  p_price :: rat
  p_seller_id :: int
  p_image_filenames_list :: "string list"
  p_created_at :: nat

record cart_item =
  c_user_id :: int
  c_product_id :: int
  c_quantity :: int

record purchase =
  pu_id :: int
  pu_user_id :: int
  pu_total_amount :: rat
  pu_purchase_date :: nat

record purchase_item =
  pi_purchase_id :: int
  pi_product_id :: int
  pi_quantity :: int
  pi_price_at_purchase :: rat
  pi_product_title :: string
  pi_product_image_filename :: "string option"

record db =
  users :: "user list"
  products :: "product list"
  cart_items :: "cart_item list"
  purchases :: "purchase list"
  purchase_items :: "purchase_item list"
  wishlist_items :: "(int \<times> int) list"
  next_user_id :: int
  next_product_id :: int
  next_purchase_id :: int

definition empty_db :: db where
  "empty_db = \<lparr>users = [], products = [], cart_items = [], purchases = [], purchase_items = [],
     wishlist_items = [], next_user_id = 1, next_product_id = 1, next_purchase_id = 1\<rparr>"

text \<open>The error taxonomy, by HTTP status: 400, 401, 403, 404, 409, 415, 500.\<close>

datatype error = Validation | Unauthorized | Forbidden | NotFound | Conflict | UnsupportedMedia | Internal

text \<open>\<^verbatim>\<open>User.query.get\<close>, \<^verbatim>\<open>Product.query.get\<close> and the cart queries.\<close>

definition get_user :: "db \<Rightarrow> int \<Rightarrow> user option" where
  "get_user s uid = find (\<lambda>u. u_id u = uid) (users s)"

definition get_product :: "db \<Rightarrow> int \<Rightarrow> product option" where
  "get_product s pid = find (\<lambda>p. p_id p = pid) (products s)"

definition cart_of :: "db \<Rightarrow> int \<Rightarrow> cart_item list" where
  "cart_of s uid = filter (\<lambda>c. c_user_id c = uid) (cart_items s)"

definition cart_row :: "int \<Rightarrow> int \<Rightarrow> cart_item \<Rightarrow> bool" where
  "cart_row uid pid c = (c_user_id c = uid \<and> c_product_id c = pid)"

definition get_cart_item :: "db \<Rightarrow> int \<Rightarrow> int \<Rightarrow> cart_item option" where
  "get_cart_item s uid pid = find (cart_row uid pid) (cart_items s)"

text \<open>Changing or deleting the one row object a query's \<^verbatim>\<open>first()\<close> returned.\<close>

fun update_first :: "('a \<Rightarrow> bool) \<Rightarrow> ('a \<Rightarrow> 'a) \<Rightarrow> 'a list \<Rightarrow> 'a list" where
  "update_first P f [] = []"
| "update_first P f (x # xs) = (if P x then f x # xs else x # update_first P f xs)"

fun delete_first :: "('a \<Rightarrow> bool) \<Rightarrow> 'a list \<Rightarrow> 'a list" where
  "delete_first P [] = []"
| "delete_first P (x # xs) = (if P x then xs else x # delete_first P xs)"

section \<open>Authentication routes\<close>

text \<open>
  Every authenticated handler starts the same way: the identity of the verified token is a
  string, \<^verbatim>\<open>int\<close> of it raising \<^verbatim>\<open>ValueError\<close> gives 401, and a user id with no row
  gives 404. Verifying the token, hashing the password and signing tokens belong to
  external libraries: the hash function is a parameter, and a token is the data it is
  made from. The flag \<open>commit_ok\<close> says whether \<^verbatim>\<open>db.session.commit()\<close> returns; when it
  raises, the handler rolls back and answers 500.
\<close>

record token =
  tok_identity :: string
  tok_refresh :: bool
  tok_expires_hours :: nat

definition create_access_token :: "string \<Rightarrow> nat \<Rightarrow> token" where
  "create_access_token identity hours =
     \<lparr>tok_identity = identity, tok_refresh = False, tok_expires_hours = hours\<rparr>"

definition create_refresh_token :: "string \<Rightarrow> nat \<Rightarrow> token" where
  "create_refresh_token identity hours =
     \<lparr>tok_identity = identity, tok_refresh = True, tok_expires_hours = hours\<rparr>"

record register_ok =
  r_access_token :: token
  r_refresh_token :: token
  r_user :: user

definition register :: "(string \<Rightarrow> string) \<Rightarrow> db \<Rightarrow> body \<Rightarrow> bool \<Rightarrow> (error + register_ok) \<times> db" where
  "register hashpw s data commit_ok =
     (case data of
        None \<Rightarrow> (Inl Validation, s)
      | Some kvs \<Rightarrow>
          if kvs = [] then (Inl Validation, s)
          else
            let email = dict_get kvs ''email'';
                username = dict_get kvs ''username'';
                password = dict_get kvs ''password'';
                profile_image_url = dict_get kvs ''profileImage''
            in
              if \<not> truthy email \<or> \<not> truthy username \<or> \<not> truthy password then (Inl Validation, s)
              else
                (case (email, username, password) of
                   (JStr e, JStr u, JStr pw) \<Rightarrow>
                     if length pw < 6 then (Inl Validation, s)
                     else if find (\<lambda>x. u_email x = e) (users s) \<noteq> None then (Inl Conflict, s)
                     else if find (\<lambda>x. u_username x = u) (users s) \<noteq> None then (Inl Conflict, s)
                     else
                       let new_user = \<lparr>u_id = next_user_id s, u_email = e, u_username = u,
                             u_password_hash = hashpw pw, u_profile_image = profile_image_url\<rparr>
                       in
                         if \<not> commit_ok then (Inl Internal, s)
                         else
                           let user_identity = py_str_int (u_id new_user)
                           in (Inr \<lparr>r_access_token = create_access_token user_identity 1,
                                     r_refresh_token = create_refresh_token user_identity (30 * 24),
                                     r_user = new_user\<rparr>,
                               s\<lparr>users := users s @ [new_user], next_user_id := next_user_id s + 1\<rparr>)
                 | _ \<Rightarrow> (Inl Validation, s)))"

definition get_me :: "db \<Rightarrow> string \<Rightarrow> (error + user) \<times> db" where
  "get_me s identity =
     (case py_int_str identity of
        None \<Rightarrow> (Inl Unauthorized, s)
      | Some user_id \<Rightarrow>
          (case get_user s user_id of
             None \<Rightarrow> (Inl NotFound, s)
           | Some user \<Rightarrow> (Inr user, s)))"

text \<open>
  \<^verbatim>\<open>update_profile\<close> changes the user object field by field and commits at the end; the
  two steps are \<open>profile_username\<close> and \<open>profile_image\<close>, each returning the error of its
  early return or the changed object.
\<close>

definition profile_username :: "db \<Rightarrow> user \<Rightarrow> (string \<times> json) list \<Rightarrow> error + user" where
  "profile_username s user kvs =
     (case map_of kvs ''username'' of
        None \<Rightarrow> Inr user
      | Some new_username \<Rightarrow>
          (case new_username of
             JStr n \<Rightarrow>
               if py_strip n = [] then Inl Validation
               else if n \<noteq> u_username user \<and> find (\<lambda>x. u_username x = n) (users s) \<noteq> None
                 then Inl Conflict
               else Inr (user\<lparr>u_username := py_strip n\<rparr>)
           | _ \<Rightarrow> Inl Validation))"

definition profile_image :: "user \<Rightarrow> (string \<times> json) list \<Rightarrow> error + user" where
  "profile_image user kvs =
     (case map_of kvs ''profileImage'' of
        None \<Rightarrow> Inr user
      | Some img \<Rightarrow>
          (case img of
             JNull \<Rightarrow> Inr (user\<lparr>u_profile_image := img\<rparr>)
           | JStr x \<Rightarrow> Inr (user\<lparr>u_profile_image := img\<rparr>)
           | _ \<Rightarrow> Inl Validation))"

definition update_profile :: "db \<Rightarrow> string \<Rightarrow> body \<Rightarrow> bool \<Rightarrow> (error + user) \<times> db" where
  "update_profile s identity data commit_ok =
     (case py_int_str identity of
        None \<Rightarrow> (Inl Unauthorized, s)
      | Some user_id \<Rightarrow>
          (case get_user s user_id of
             None \<Rightarrow> (Inl NotFound, s)
           | Some user \<Rightarrow>
               (case data of
                  None \<Rightarrow> (Inl Validation, s)
                | Some kvs \<Rightarrow>
                    if kvs = [] then (Inl Validation, s)
                    else
                      (case profile_username s user kvs of
                         Inl e \<Rightarrow> (Inl e, s)
                       | Inr user1 \<Rightarrow>
                           (case profile_image user1 kvs of
                              Inl e \<Rightarrow> (Inl e, s)
                            | Inr user2 \<Rightarrow>
                                if \<not> commit_ok then (Inl Internal, s)
                                else (Inr user2,
                                      s\<lparr>users := update_first (\<lambda>u. u_id u = user_id) (\<lambda>u. user2) (users s)\<rparr>))))))"

section \<open>Cart routes\<close>

definition get_cart_items :: "db \<Rightarrow> string \<Rightarrow> (error + cart_item list) \<times> db" where
  "get_cart_items s identity =
     (case py_int_str identity of
        None \<Rightarrow> (Inl Unauthorized, s)
      | Some uid \<Rightarrow>
          (case get_user s uid of
             None \<Rightarrow> (Inl NotFound, s)
           | Some user \<Rightarrow> (Inr (cart_of s uid), s)))"

text \<open>The answer of the cart handlers: status code, the affected item, the whole cart.\<close>

record cart_ok =
  co_status :: nat
  co_item :: "cart_item option"
  co_cart :: "cart_item list"

definition add_to_cart :: "db \<Rightarrow> string \<Rightarrow> body \<Rightarrow> bool \<Rightarrow> (error + cart_ok) \<times> db" where
  "add_to_cart s identity data commit_ok =
     (case py_int_str identity of
        None \<Rightarrow> (Inl Unauthorized, s)
      | Some uid \<Rightarrow>
          (case get_user s uid of
             None \<Rightarrow> (Inl NotFound, s)
           | Some user \<Rightarrow>
               (case data of
                  None \<Rightarrow> (Inl Validation, s)
                | Some kvs \<Rightarrow>
                    if kvs = [] then (Inl Validation, s)
                    else
                      let product_id = dict_get kvs ''productId'';
                          quantity_req = dict_get_default kvs ''quantity'' (JInt 1)
                      in
                        if product_id = JNull then (Inl Validation, s)
                        else
                          (case py_int product_id of
                             None \<Rightarrow> (Inl Validation, s)
                           | Some pid \<Rightarrow>
                               (case py_int quantity_req of
                                  None \<Rightarrow> (Inl Validation, s)
                                | Some quantity \<Rightarrow>
                                    if quantity < 1 then (Inl Validation, s)
                                    else
                                      (case get_product s pid of
                                         None \<Rightarrow> (Inl NotFound, s)
                                       | Some product \<Rightarrow>
                                           if p_seller_id product = uid then (Inl Forbidden, s)
                                           else
                                             let (cart_item, rows) =
                                                   (case get_cart_item s uid pid of
                                                      Some old \<Rightarrow>
                                                        (old\<lparr>c_quantity := c_quantity old + quantity\<rparr>,
                                                         update_first (cart_row uid pid)
                                                           (\<lambda>c. c\<lparr>c_quantity := c_quantity c + quantity\<rparr>)
                                                           (cart_items s))
                                                    | None \<Rightarrow>
                                                        (\<lparr>c_user_id = uid, c_product_id = pid, c_quantity = quantity\<rparr>,
                                                         cart_items s @
                                                           [\<lparr>c_user_id = uid, c_product_id = pid, c_quantity = quantity\<rparr>]))
                                             in
                                               if \<not> commit_ok then (Inl Internal, s)
                                               else
                                                 let s' = s\<lparr>cart_items := rows\<rparr>
                                                 in (Inr \<lparr>co_status = (if c_quantity cart_item > quantity then 200 else 201),
                                                           co_item = Some cart_item,
                                                           co_cart = cart_of s' uid\<rparr>, s')))))))"

definition update_cart_item_quantity :: "db \<Rightarrow> string \<Rightarrow> int \<Rightarrow> body \<Rightarrow> bool \<Rightarrow> (error + cart_ok) \<times> db" where
  "update_cart_item_quantity s identity product_id_in_cart data commit_ok =
     (case py_int_str identity of
        None \<Rightarrow> (Inl Unauthorized, s)
      | Some uid \<Rightarrow>
          (case get_user s uid of
             None \<Rightarrow> (Inl NotFound, s)
           | Some user \<Rightarrow>
               (case data of
                  None \<Rightarrow> (Inl Validation, s)
                | Some kvs \<Rightarrow>
                    (case map_of kvs ''quantity'' of
                       None \<Rightarrow> (Inl Validation, s)
                     | Some qv \<Rightarrow>
                         (case py_int qv of
                            None \<Rightarrow> (Inl Validation, s)
                          | Some quantity \<Rightarrow>
                              (case get_cart_item s uid product_id_in_cart of
                                 None \<Rightarrow> (Inl NotFound, s)
                               | Some cart_item \<Rightarrow>
                                   let rows =
                                         (if quantity < 1
                                          then delete_first (cart_row uid product_id_in_cart) (cart_items s)
                                          else update_first (cart_row uid product_id_in_cart)
                                                 (\<lambda>c. c\<lparr>c_quantity := quantity\<rparr>) (cart_items s))
                                   in
                                     if \<not> commit_ok then (Inl Internal, s)
                                     else
                                       let s' = s\<lparr>cart_items := rows\<rparr>
                                       in (Inr \<lparr>co_status = 200,
                                                 co_item = (if quantity \<ge> 1
                                                            then Some (cart_item\<lparr>c_quantity := quantity\<rparr>)
                                                            else None),
                                                 co_cart = cart_of s' uid\<rparr>, s')))))))"

definition remove_from_cart :: "db \<Rightarrow> string \<Rightarrow> int \<Rightarrow> bool \<Rightarrow> (error + cart_ok) \<times> db" where
  "remove_from_cart s identity product_id_in_cart commit_ok =
     (case py_int_str identity of
        None \<Rightarrow> (Inl Unauthorized, s)
      | Some uid \<Rightarrow>
          (case get_user s uid of
             None \<Rightarrow> (Inl NotFound, s)
           | Some user \<Rightarrow>
               (case get_cart_item s uid product_id_in_cart of
                  None \<Rightarrow> (Inl NotFound, s)
                | Some cart_item \<Rightarrow>
                    if \<not> commit_ok then (Inl Internal, s)
                    else
                      let s' = s\<lparr>cart_items := delete_first (cart_row uid product_id_in_cart) (cart_items s)\<rparr>
                      in (Inr \<lparr>co_status = 200, co_item = None, co_cart = cart_of s' uid\<rparr>, s'))))"

text \<open>
  \<^verbatim>\<open>checkout\<close>: the first loop resolves the product of every cart row, adds up the total
  and collects the snapshot data; a row whose product is gone ends the request with 500
  before anything was added to the session. \<open>Inl\<close> carries the id of that product.
\<close>

record purchase_item_data =
  d_product_id :: int
  d_quantity :: int
  d_price_at_purchase :: rat
  d_product_title :: string
  d_product_image_filename :: "string option"

definition snapshot :: "product \<Rightarrow> cart_item \<Rightarrow> purchase_item_data" where
  "snapshot product item =
     \<lparr>d_product_id = p_id product,
      d_quantity = c_quantity item,
      d_price_at_purchase = p_price product,
      d_product_title = p_title product,
      d_product_image_filename =
        (case p_image_filenames_list product of [] \<Rightarrow> None | fn # rest \<Rightarrow> Some fn)\<rparr>"

fun checkout_loop :: "db \<Rightarrow> cart_item list \<Rightarrow> rat \<Rightarrow> purchase_item_data list
    \<Rightarrow> int + rat \<times> purchase_item_data list" where
  "checkout_loop s [] total_amount acc = Inr (total_amount, acc)"
| "checkout_loop s (item # items) total_amount acc =
     (case get_product s (c_product_id item) of
        None \<Rightarrow> Inl (c_product_id item)
      | Some product \<Rightarrow>
          checkout_loop s items
            (total_amount + p_price product * of_int (c_quantity item))
            (acc @ [snapshot product item]))"

definition purchase_item_entry :: "int \<Rightarrow> purchase_item_data \<Rightarrow> purchase_item" where
  "purchase_item_entry purchase_id pi_data =
     \<lparr>pi_purchase_id = purchase_id,
      pi_product_id = d_product_id pi_data,
      pi_quantity = d_quantity pi_data,
      pi_price_at_purchase = d_price_at_purchase pi_data,
      pi_product_title = d_product_title pi_data,
      pi_product_image_filename = d_product_image_filename pi_data\<rparr>"

text \<open>The answer of a checkout: the new id, and the purchase with its items.\<close>

record checkout_ok =
  ck_purchase_id :: int
  ck_purchase :: purchase
  ck_items :: "purchase_item list"

definition checkout :: "db \<Rightarrow> string \<Rightarrow> nat \<Rightarrow> bool \<Rightarrow> (error + checkout_ok) \<times> db" where
  "checkout s identity now commit_ok =
     (case py_int_str identity of
        None \<Rightarrow> (Inl Unauthorized, s)
      | Some uid \<Rightarrow>
          (case get_user s uid of
             None \<Rightarrow> (Inl NotFound, s)
           | Some user \<Rightarrow>
               let cart_items_to_checkout = cart_of s uid
               in
                 if cart_items_to_checkout = [] then (Inl Validation, s)
                 else
                   (case checkout_loop s cart_items_to_checkout 0 [] of
                      Inl missing \<Rightarrow> (Inl Internal, s)
                    | Inr (total_amount, purchase_items_data_for_db) \<Rightarrow>
                        let new_purchase = \<lparr>pu_id = next_purchase_id s, pu_user_id = uid,
                              pu_total_amount = round2 total_amount, pu_purchase_date = now\<rparr>;
                            entries = map (purchase_item_entry (pu_id new_purchase)) purchase_items_data_for_db
                        in
                          if \<not> commit_ok then (Inl Internal, s)
                          else
                            (Inr \<lparr>ck_purchase_id = pu_id new_purchase, ck_purchase = new_purchase,
                                  ck_items = entries\<rparr>,
                             s\<lparr>purchases := purchases s @ [new_purchase],
                               purchase_items := purchase_items s @ entries,
                               cart_items := filter (\<lambda>c. c \<notin> set cart_items_to_checkout) (cart_items s),
                               next_purchase_id := next_purchase_id s + 1\<rparr>))))"

section \<open>Purchase history and wishlist routes\<close>

definition get_purchase_history :: "db \<Rightarrow> string \<Rightarrow> (error + (purchase \<times> purchase_item list) list) \<times> db" where
  "get_purchase_history s identity =
     (case py_int_str identity of
        None \<Rightarrow> (Inl Unauthorized, s)
      | Some uid \<Rightarrow>
          (case get_user s uid of
             None \<Rightarrow> (Inl NotFound, s)
           | Some user \<Rightarrow>
               (Inr (map (\<lambda>pu. (pu, filter (\<lambda>i. pi_purchase_id i = pu_id pu) (purchase_items s)))
                      (rev (sort_key pu_purchase_date (filter (\<lambda>pu. pu_user_id pu = uid) (purchases s))))),
                s)))"

text \<open>
  \<^verbatim>\<open>user.wishlist\<close> is the list of products joined through the membership table, a row
  being a pair of user id and product id.
\<close>

definition wishlist_of :: "db \<Rightarrow> int \<Rightarrow> product list" where
  "wishlist_of s uid =
     concat (map (\<lambda>(u, pid). if u = uid then filter (\<lambda>p. p_id p = pid) (products s) else [])
               (wishlist_items s))"

definition in_wishlist :: "db \<Rightarrow> int \<Rightarrow> product \<Rightarrow> bool" where
  "in_wishlist s uid product = (product \<in> set (wishlist_of s uid))"

definition get_wishlist :: "db \<Rightarrow> string \<Rightarrow> (error + product list) \<times> db" where
  "get_wishlist s identity =
     (case py_int_str identity of
        None \<Rightarrow> (Inl Unauthorized, s)
      | Some uid \<Rightarrow>
          (case get_user s uid of
             None \<Rightarrow> (Inl NotFound, s)
           | Some user \<Rightarrow> (Inr (wishlist_of s uid), s)))"

definition add_to_wishlist :: "db \<Rightarrow> string \<Rightarrow> int \<Rightarrow> bool \<Rightarrow> (error + int) \<times> db" where
  "add_to_wishlist s identity product_id commit_ok =
     (case py_int_str identity of
        None \<Rightarrow> (Inl Unauthorized, s)
      | Some uid \<Rightarrow>
          (case get_user s uid of
             None \<Rightarrow> (Inl NotFound, s)
           | Some user \<Rightarrow>
               (case get_product s product_id of
                  None \<Rightarrow> (Inl NotFound, s)
                | Some product \<Rightarrow>
                    if in_wishlist s uid product then (Inl Conflict, s)
                    else if p_seller_id product = uid then (Inl Forbidden, s)
                    else if \<not> commit_ok then (Inl Internal, s)
                    else (Inr (p_id product),
                          s\<lparr>wishlist_items := wishlist_items s @ [(uid, p_id product)]\<rparr>))))"

definition remove_from_wishlist :: "db \<Rightarrow> string \<Rightarrow> int \<Rightarrow> bool \<Rightarrow> (error + int) \<times> db" where
  "remove_from_wishlist s identity product_id commit_ok =
     (case py_int_str identity of
        None \<Rightarrow> (Inl Unauthorized, s)
      | Some uid \<Rightarrow>
          (case get_user s uid of
             None \<Rightarrow> (Inl NotFound, s)
           | Some user \<Rightarrow>
               (case get_product s product_id of
                  None \<Rightarrow> (Inl NotFound, s)
                | Some product \<Rightarrow>
                    if \<not> in_wishlist s uid product then (Inl NotFound, s)
                    else if \<not> commit_ok then (Inl Internal, s)
                    else (Inr (p_id product),
                          s\<lparr>wishlist_items := remove1 (uid, p_id product) (wishlist_items s)\<rparr>))))"

section \<open>Product routes\<close>

text \<open>
  Product create and update read a multipart form, a list of text fields. What lies outside
  the store is passed in: \<open>multipart\<close> says whether the content type is multipart form
  data, \<open>py_float\<close> is Python's \<^verbatim>\<open>float\<close> on a string (\<open>None\<close> when it raises),
  \<open>saved\<close> are the names \<^verbatim>\<open>save_files_from_request\<close> gave the uploaded files,
  \<open>kept\<close> the names read from \<^verbatim>\<open>existingImages\<close>, and \<open>now\<close> the clock.
\<close>

type_synonym form = "(string \<times> string) list"

definition missing_field :: "form \<Rightarrow> string \<Rightarrow> bool" where
  "missing_field frm key = (case map_of frm key of None \<Rightarrow> True | Some v \<Rightarrow> py_strip v = [])"

definition create_product ::
  "(string \<Rightarrow> rat option) \<Rightarrow> db \<Rightarrow> string \<Rightarrow> bool \<Rightarrow> form \<Rightarrow> string list \<Rightarrow> nat \<Rightarrow> bool
     \<Rightarrow> (error + product) \<times> db" where
  "create_product py_float s identity multipart frm saved now commit_ok =
     (case py_int_str identity of
        None \<Rightarrow> (Inl Unauthorized, s)
      | Some uid \<Rightarrow>
          (case get_user s uid of
             None \<Rightarrow> (Inl NotFound, s)
           | Some user \<Rightarrow>
               if \<not> multipart then (Inl UnsupportedMedia, s)
               else if filter (missing_field frm) [''title'', ''description'', ''category'', ''price''] \<noteq> []
                 then (Inl Validation, s)
               else
                 (case py_float (the (map_of frm ''price'')) of
                    None \<Rightarrow> (Inl Validation, s)
                  | Some price \<Rightarrow>
                      if price \<le> 0 then (Inl Validation, s)
                      else
                        let new_product =
                              \<lparr>p_id = next_product_id s,
                               p_title = py_strip (the (map_of frm ''title'')),
                               p_description = py_strip (the (map_of frm ''description'')),
                               p_category = py_strip (the (map_of frm ''category'')),
                               p_price = price,
                               p_seller_id = uid,
                               p_image_filenames_list = saved,
                               p_created_at = now\<rparr>
                        in
                          if \<not> commit_ok then (Inl Internal, s)
                          else (Inr new_product,
                                s\<lparr>products := products s @ [new_product],
                                  next_product_id := next_product_id s + 1\<rparr>))))"

definition form_text :: "form \<Rightarrow> string \<Rightarrow> string \<Rightarrow> string" where
  "form_text frm key old = (case map_of frm key of None \<Rightarrow> old | Some v \<Rightarrow> py_strip v)"

definition update_product ::
  "(string \<Rightarrow> rat option) \<Rightarrow> db \<Rightarrow> string \<Rightarrow> int \<Rightarrow> bool \<Rightarrow> form \<Rightarrow> string list \<Rightarrow> string list \<Rightarrow> bool
     \<Rightarrow> (error + product) \<times> db" where
  "update_product py_float s identity product_id multipart frm kept saved commit_ok =
     (case py_int_str identity of
        None \<Rightarrow> (Inl Unauthorized, s)
      | Some uid \<Rightarrow>
          (case get_product s product_id of
             None \<Rightarrow> (Inl NotFound, s)
           | Some product \<Rightarrow>
               if p_seller_id product \<noteq> uid then (Inl Forbidden, s)
               else if \<not> multipart then (Inl UnsupportedMedia, s)
               else
                 let product1 = product\<lparr>p_title := form_text frm ''title'' (p_title product),
                                        p_description := form_text frm ''description'' (p_description product),
                                        p_category := form_text frm ''category'' (p_category product)\<rparr>
                 in
                   (case (case map_of frm ''price'' of
                            None \<Rightarrow> Inr product1
                          | Some price_str \<Rightarrow>
                              (case py_float price_str of
                                 None \<Rightarrow> Inl Validation
                               | Some price \<Rightarrow>
                                   if price \<le> 0 then Inl Validation
                                   else Inr (product1\<lparr>p_price := price\<rparr>))) of
                      Inl e \<Rightarrow> (Inl e, s)
                    | Inr product2 \<Rightarrow>
                        let product3 = product2\<lparr>p_image_filenames_list := kept @ saved\<rparr>
                        in
                          if \<not> commit_ok then (Inl Internal, s)
                          else (Inr product3,
                                s\<lparr>products := update_first (\<lambda>p. p_id p = product_id) (\<lambda>p. product3) (products s)\<rparr>))))"

text \<open>
  Deleting a product deletes its row. Cart rows and wishlist rows that refer to the product
  stay where they are: what the store does with them is declared with the table classes,
  and \<^verbatim>\<open>checkout\<close> expects to meet cart rows whose product is gone. Update and delete
  do not look the user up, only the product and its seller.
\<close>

definition delete_product :: "db \<Rightarrow> string \<Rightarrow> int \<Rightarrow> bool \<Rightarrow> (error + unit) \<times> db" where
  "delete_product s identity product_id commit_ok =
     (case py_int_str identity of
        None \<Rightarrow> (Inl Unauthorized, s)
      | Some uid \<Rightarrow>
          (case get_product s product_id of
             None \<Rightarrow> (Inl NotFound, s)
           | Some product \<Rightarrow>
               if p_seller_id product \<noteq> uid then (Inl Forbidden, s)
               else if \<not> commit_ok then (Inl Internal, s)
               else (Inr (), s\<lparr>products := delete_first (\<lambda>p. p_id p = product_id) (products s)\<rparr>)))"

text \<open>
  The listing. \<^verbatim>\<open>ilike\<close> is SQL's \<^verbatim>\<open>LIKE\<close> on the lower-cased operands, \<open>%\<close> matching
  any run of characters and \<open>_\<close> any one character. \<open>paginate\<close> is the library's
  pagination with \<^verbatim>\<open>error_out=False\<close>: a page below 1 becomes 1, a page size below 1
  becomes 20. A query argument is \<open>None\<close> when absent (for the two numbers also when it is
  not an integer, where the default applies).
\<close>

definition lower_char :: "char \<Rightarrow> char" where
  "lower_char c = (let n = (of_char c :: nat) in if 65 \<le> n \<and> n \<le> 90 then char_of (n + 32) else c)"

definition lower :: "string \<Rightarrow> string" where
  "lower s = map lower_char s"









section \<open>Requests and reachable stores\<close>

text \<open>
  The handlers that write to the store, as one request type; the handlers that only read
  leave every store as it is. A store is reachable when a sequence of requests leads to
  it from the empty store.
\<close>

datatype request =
    Register body bool
  | UpdateProfile string body bool
  | CreateProduct string bool form "string list" nat bool
  | UpdateProduct string int bool form "string list" "string list" bool
  | DeleteProduct string int bool
  | AddToCart string body bool
  | UpdateCartItem string int body bool
  | RemoveFromCart string int bool
  | Checkout string nat bool
  | AddToWishlist string int bool
  | RemoveFromWishlist string int bool

fun handle :: "(string \<Rightarrow> string) \<Rightarrow> (string \<Rightarrow> rat option) \<Rightarrow> db \<Rightarrow> request \<Rightarrow> db" where
  "handle hashpw py_float s (Register data c) = snd (register hashpw s data c)"
| "handle hashpw py_float s (UpdateProfile i data c) = snd (update_profile s i data c)"
| "handle hashpw py_float s (CreateProduct i m frm saved now c) =
     snd (create_product py_float s i m frm saved now c)"
| "handle hashpw py_float s (UpdateProduct i pid m frm kept saved c) =
     snd (update_product py_float s i pid m frm kept saved c)"
| "handle hashpw py_float s (DeleteProduct i pid c) = snd (delete_product s i pid c)"
| "handle hashpw py_float s (AddToCart i data c) = snd (add_to_cart s i data c)"
| "handle hashpw py_float s (UpdateCartItem i pid data c) = snd (update_cart_item_quantity s i pid data c)"
| "handle hashpw py_float s (RemoveFromCart i pid c) = snd (remove_from_cart s i pid c)"
| "handle hashpw py_float s (Checkout i now c) = snd (checkout s i now c)"
| "handle hashpw py_float s (AddToWishlist i pid c) = snd (add_to_wishlist s i pid c)"
| "handle hashpw py_float s (RemoveFromWishlist i pid c) = snd (remove_from_wishlist s i pid c)"

inductive reachable :: "(string \<Rightarrow> string) \<Rightarrow> (string \<Rightarrow> rat option) \<Rightarrow> db \<Rightarrow> bool"
  for hashpw :: "string \<Rightarrow> string" and py_float :: "string \<Rightarrow> rat option" where
  reachable_init: "reachable hashpw py_float empty_db"
| reachable_step: "reachable hashpw py_float s \<Longrightarrow> reachable hashpw py_float (handle hashpw py_float s r)"


definition quantity_positive :: "db \<Rightarrow> bool" where
  "quantity_positive s = (\<forall>c \<in> set (cart_items s). 1 \<le> c_quantity c)"




text \<open>At most one cart row per user and product.\<close>

definition cart_rows_unique :: "db \<Rightarrow> bool" where
  "cart_rows_unique s = distinct (map (\<lambda>c. (c_user_id c, c_product_id c)) (cart_items s))"



section \<open>What a checkout is expected to record\<close>



section \<open>Example stores\<close>

text \<open>
  Two users; alice sells a lamp for 10.00 and a chair for 5.50, bob sells a book; bob has
  two lamps and one chair in his cart and the lamp in his wishlist. In \<open>demo_db_lamp_gone\<close> the lamp's
  row has been deleted while bob's cart still refers to it.
\<close>

definition alice :: user where
  "alice = \<lparr>u_id = 1, u_email = ''alice@example.org'', u_username = ''alice'',
     u_password_hash = ''h1'', u_profile_image = JNull\<rparr>"

definition bob :: user where
  "bob = \<lparr>u_id = 2, u_email = ''bob@example.org'', u_username = ''bob'',
     u_password_hash = ''h2'', u_profile_image = JNull\<rparr>"

definition lamp :: product where
  "lamp = \<lparr>p_id = 1, p_title = ''Lamp'', p_description = ''Desk lamp'', p_category = ''Home'',
     p_price = 10, p_seller_id = 1, p_image_filenames_list = [''a.png'', ''b.png''], p_created_at = 100\<rparr>"

definition chair :: product where
  "chair = \<lparr>p_id = 2, p_title = ''Chair'', p_description = ''Oak chair'', p_category = ''Home'',
     p_price = 11 / 2, p_seller_id = 1, p_image_filenames_list = [], p_created_at = 200\<rparr>"

definition book :: product where
  "book = \<lparr>p_id = 3, p_title = ''Book'', p_description = ''Old atlas'', p_category = ''Books'',
     p_price = 3, p_seller_id = 2, p_image_filenames_list = [], p_created_at = 300\<rparr>"

definition demo_db :: db where
  "demo_db = \<lparr>users = [alice, bob], products = [lamp, chair, book],
     cart_items = [\<lparr>c_user_id = 2, c_product_id = 1, c_quantity = 2\<rparr>,
                   \<lparr>c_user_id = 2, c_product_id = 2, c_quantity = 1\<rparr>],
     purchases = [], purchase_items = [], wishlist_items = [(2, 1)],
     next_user_id = 3, next_product_id = 4, next_purchase_id = 1\<rparr>"

definition demo_db_lamp_gone :: db where
  "demo_db_lamp_gone = demo_db\<lparr>products := [chair, book]\<rparr>"


section \<open>Properties\<close>

lemmas py_int_str_defs = py_int_str_def py_strip_def is_space_def digit_val_def

lemmas demo_defs = demo_db_def demo_db_lamp_gone_def alice_def bob_def lamp_def chair_def book_def

lemma identity_1: "py_int_str ''1'' = Some 1"
  by (simp add: py_int_str_defs)

lemma identity_2: "py_int_str ''2'' = Some 2"
  by (simp add: py_int_str_defs)

lemma identity_7: "py_int_str ''7'' = Some 7"
  by (simp add: py_int_str_defs)

subsection \<open>A token of a user that has no row\<close>

text \<open>
  C10. Each of cart get, add, update and remove, checkout, wishlist get, add and remove,
  purchase history, the current-user query and the profile update answers NotFound and
  leaves the store as it is, when the token's identity is an integer that is the id of no
  user.
\<close>

theorem missing_user_not_found:
  assumes "py_int_str identity = Some uid" and "get_user s uid = None"
  shows "get_cart_items s identity = (Inl NotFound, s)
    \<and> add_to_cart s identity data c = (Inl NotFound, s)
    \<and> update_cart_item_quantity s identity pid data c = (Inl NotFound, s)
    \<and> remove_from_cart s identity pid c = (Inl NotFound, s)
    \<and> checkout s identity now c = (Inl NotFound, s)
    \<and> get_wishlist s identity = (Inl NotFound, s)
    \<and> add_to_wishlist s identity pid c = (Inl NotFound, s)
    \<and> remove_from_wishlist s identity pid c = (Inl NotFound, s)
    \<and> get_purchase_history s identity = (Inl NotFound, s)
    \<and> get_me s identity = (Inl NotFound, s)
    \<and> update_profile s identity data c = (Inl NotFound, s)"
  using assms
  by (simp add: get_cart_items_def add_to_cart_def update_cart_item_quantity_def remove_from_cart_def
      checkout_def get_wishlist_def add_to_wishlist_def remove_from_wishlist_def
      get_purchase_history_def get_me_def update_profile_def)

theorem missing_user_not_found_witness:
  "py_int_str ''7'' = Some 7 \<and> get_user demo_db 7 = None
    \<and> checkout demo_db ''7'' 0 True = (Inl NotFound, demo_db)
    \<and> add_to_wishlist demo_db ''7'' 2 True = (Inl NotFound, demo_db)
    \<and> update_profile demo_db ''7'' (Some [(''username'', JStr ''x'')]) True = (Inl NotFound, demo_db)"
proof -
  have u: "get_user demo_db 7 = None"
    by (simp add: get_user_def demo_defs)
  show ?thesis
    using missing_user_not_found [OF identity_7 u, of "Some [(''username'', JStr ''x'')]" True 2 0]
      identity_7 u
    by simp
qed

subsection \<open>Checkout\<close>




lemma checkout_loop_missing:
  "\<exists>item \<in> set rows. get_product s (c_product_id item) = None \<Longrightarrow>
   \<exists>m. checkout_loop s rows t acc = Inl m"
  by (induction rows arbitrary: t acc) (auto split: option.splits)




text \<open>
  C2. A checkout of an existing user answers Validation when the user's cart is empty and
  Internal when a cart row refers to a product that has no row; and whenever a checkout
  answers with an error, the store (purchases, purchase items, cart rows and all) is the
  store it started from.
\<close>

theorem checkout_failure_atomic:
  "(py_int_str identity = Some uid \<and> get_user s uid = Some u \<and> cart_of s uid = []
      \<longrightarrow> checkout s identity now c = (Inl Validation, s))
   \<and> (py_int_str identity = Some uid \<and> get_user s uid = Some u
        \<and> (\<exists>item \<in> set (cart_of s uid). get_product s (c_product_id item) = None)
      \<longrightarrow> checkout s identity now c = (Inl Internal, s))
   \<and> (\<forall>e s'. checkout s identity now c = (Inl e, s') \<longrightarrow> s' = s)"
proof (intro conjI impI allI)
  assume "py_int_str identity = Some uid \<and> get_user s uid = Some u \<and> cart_of s uid = []"
  then show "checkout s identity now c = (Inl Validation, s)"
    by (simp add: checkout_def)
next
  assume a: "py_int_str identity = Some uid \<and> get_user s uid = Some u
        \<and> (\<exists>item \<in> set (cart_of s uid). get_product s (c_product_id item) = None)"
  then have ne: "cart_of s uid \<noteq> []" by auto
  from a obtain m where "checkout_loop s (cart_of s uid) 0 [] = Inl m"
    using checkout_loop_missing by blast
  with a ne show "checkout s identity now c = (Inl Internal, s)"
    by (simp add: checkout_def)
next
  fix e s'
  assume "checkout s identity now c = (Inl e, s')"
  then show "s' = s"
    by (auto simp: checkout_def Let_def split: option.splits sum.splits if_splits prod.splits)
qed

theorem checkout_failure_atomic_witness:
  "checkout demo_db ''1'' 500 True = (Inl Validation, demo_db)
   \<and> checkout demo_db_lamp_gone ''2'' 500 True = (Inl Internal, demo_db_lamp_gone)
   \<and> checkout demo_db ''2'' 500 False = (Inl Internal, demo_db)"
proof -
  have u1: "get_user demo_db 1 = Some alice"
    by (simp add: get_user_def demo_defs)
  have c1: "cart_of demo_db 1 = []"
    by (simp add: cart_of_def demo_defs)
  have u2: "get_user demo_db_lamp_gone 2 = Some bob"
    by (simp add: get_user_def demo_defs)
  have c2: "\<exists>item \<in> set (cart_of demo_db_lamp_gone 2). get_product demo_db_lamp_gone (c_product_id item) = None"
    by (simp add: cart_of_def get_product_def demo_defs)
  have f: "\<exists>e. fst (checkout demo_db ''2'' 500 False) = Inl e"
    by (simp add: checkout_def identity_2 get_user_def cart_of_def get_product_def demo_defs Let_def)
  then obtain e where e: "checkout demo_db ''2'' 500 False = (Inl e, snd (checkout demo_db ''2'' 500 False))"
    by (metis prod.collapse)
  have e': "fst (checkout demo_db ''2'' 500 False) = Inl Internal"
    by (simp add: checkout_def identity_2 get_user_def cart_of_def get_product_def demo_defs Let_def)
  have "snd (checkout demo_db ''2'' 500 False) = demo_db"
    using checkout_failure_atomic [of "''2''" 2 demo_db bob 500 False] e by blast
  with e' have third: "checkout demo_db ''2'' 500 False = (Inl Internal, demo_db)"
    by (metis prod.collapse)
  show ?thesis
    using checkout_failure_atomic [of "''1''" 1 demo_db alice 500 True]
      checkout_failure_atomic [of "''2''" 2 demo_db_lamp_gone bob 500 True]
      identity_1 identity_2 u1 c1 u2 c2 third
    by simp
qed

subsection \<open>The example store\<close>

lemma demo_bob: "get_user demo_db 2 = Some bob"
  by (simp add: get_user_def demo_defs)

lemma demo_alice: "get_user demo_db 1 = Some alice"
  by (simp add: get_user_def demo_defs)

lemma demo_cart_rows_unique: "cart_rows_unique demo_db"
  by (simp add: cart_rows_unique_def demo_defs)


subsection \<open>Changing the quantity of a cart row\<close>

lemma delete_first_filter:
  "distinct (map f xs) \<Longrightarrow> (\<And>x. P x \<longleftrightarrow> f x = k) \<Longrightarrow>
   delete_first P xs = filter (\<lambda>x. \<not> P x) xs"
proof (induction xs)
  case Nil
  then show ?case by simp
next
  case (Cons x xs)
  show ?case
  proof (cases "P x")
    case True
    with Cons.prems have "\<forall>y \<in> set xs. \<not> P y" by (auto simp: image_iff)
    then have "filter (\<lambda>x. \<not> P x) xs = xs" by (simp add: filter_id_conv)
    with True show ?thesis by simp
  next
    case False
    with Cons show ?thesis by simp
  qed
qed

lemma update_first_map:
  "distinct (map f xs) \<Longrightarrow> (\<And>x. P x \<longleftrightarrow> f x = k) \<Longrightarrow>
   update_first P g xs = map (\<lambda>x. if P x then g x else x) xs"
proof (induction xs)
  case Nil
  then show ?case by simp
next
  case (Cons x xs)
  show ?case
  proof (cases "P x")
    case True
    with Cons.prems have "\<forall>y \<in> set xs. \<not> P y" by (auto simp: image_iff)
    then have "map (\<lambda>x. if P x then g x else x) xs = xs" by (simp add: map_idI)
    with True show ?thesis by simp
  next
    case False
    with Cons show ?thesis by simp
  qed
qed

lemma cart_row_key: "cart_row uid pid c \<longleftrightarrow> (c_user_id c, c_product_id c) = (uid, pid)"
  by (simp add: cart_row_def)

lemma find_filter_not: "find P (filter (\<lambda>x. \<not> P x) xs) = None"
  by (simp add: find_None_iff)

lemma find_map_update:
  "find P xs = Some x \<Longrightarrow> (\<And>y. P y \<Longrightarrow> P (g y)) \<Longrightarrow>
   find P (map (\<lambda>y. if P y then g y else y) xs) = Some (g x)"
  by (induction xs) (auto split: if_splits)

lemma get_cart_item_row: "get_cart_item s uid pid = Some r \<Longrightarrow> c_user_id r = uid \<and> c_product_id r = pid"
  by (auto simp: get_cart_item_def cart_row_def find_Some_iff)

text \<open>
  C5. For an existing user and a body whose quantity converts to an integer, the cart
  having at most one row per user and product: the quantity update answers NotFound when
  the user has no cart row for the product; for a quantity below 1 it succeeds and the
  row is gone afterwards; for a quantity of at least 1 it succeeds and the row's quantity
  is the given one; in both cases every other cart row and every other table is as before.
\<close>

theorem update_cart_item_quantity_spec:
  assumes "py_int_str identity = Some uid" and "get_user s uid = Some u"
    and "map_of kvs ''quantity'' = Some qv" and "py_int qv = Some q"
    and "cart_rows_unique s"
  shows "(get_cart_item s uid pid = None \<longrightarrow>
            update_cart_item_quantity s identity pid (Some kvs) c = (Inl NotFound, s))
    \<and> (get_cart_item s uid pid \<noteq> None \<and> q < 1 \<longrightarrow>
         (let s' = s\<lparr>cart_items := filter (\<lambda>r. \<not> cart_row uid pid r) (cart_items s)\<rparr>
          in update_cart_item_quantity s identity pid (Some kvs) True =
               (Inr \<lparr>co_status = 200, co_item = None, co_cart = cart_of s' uid\<rparr>, s')
             \<and> get_cart_item s' uid pid = None))
    \<and> (get_cart_item s uid pid \<noteq> None \<and> 1 \<le> q \<longrightarrow>
         (let s' = s\<lparr>cart_items :=
                        map (\<lambda>r. if cart_row uid pid r then r\<lparr>c_quantity := q\<rparr> else r) (cart_items s)\<rparr>
          in update_cart_item_quantity s identity pid (Some kvs) True =
               (Inr \<lparr>co_status = 200,
                     co_item = Some \<lparr>c_user_id = uid, c_product_id = pid, c_quantity = q\<rparr>,
                     co_cart = cart_of s' uid\<rparr>, s')
             \<and> get_cart_item s' uid pid = Some \<lparr>c_user_id = uid, c_product_id = pid, c_quantity = q\<rparr>))"
proof (intro conjI impI)
  assume "get_cart_item s uid pid = None"
  with assms(1-4) show "update_cart_item_quantity s identity pid (Some kvs) c = (Inl NotFound, s)"
    by (simp add: update_cart_item_quantity_def)
next
  assume a: "get_cart_item s uid pid \<noteq> None \<and> q < 1"
  then obtain r where r: "get_cart_item s uid pid = Some r" by auto
  have d: "delete_first (cart_row uid pid) (cart_items s) = filter (\<lambda>r. \<not> cart_row uid pid r) (cart_items s)"
    using assms(5) unfolding cart_rows_unique_def
    by (rule delete_first_filter) (rule cart_row_key)
  show "let s' = s\<lparr>cart_items := filter (\<lambda>r. \<not> cart_row uid pid r) (cart_items s)\<rparr>
          in update_cart_item_quantity s identity pid (Some kvs) True =
               (Inr \<lparr>co_status = 200, co_item = None, co_cart = cart_of s' uid\<rparr>, s')
             \<and> get_cart_item s' uid pid = None"
    using assms(1-4) a r
    by (simp add: update_cart_item_quantity_def Let_def d get_cart_item_def find_filter_not)
next
  assume a: "get_cart_item s uid pid \<noteq> None \<and> 1 \<le> q"
  then obtain r where r: "get_cart_item s uid pid = Some r" by auto
  have rq: "r\<lparr>c_quantity := q\<rparr> = \<lparr>c_user_id = uid, c_product_id = pid, c_quantity = q\<rparr>"
    using get_cart_item_row [OF r] by (cases r) simp
  have d: "update_first (cart_row uid pid) (\<lambda>c. c\<lparr>c_quantity := q\<rparr>) (cart_items s)
      = map (\<lambda>r. if cart_row uid pid r then r\<lparr>c_quantity := q\<rparr> else r) (cart_items s)"
    using assms(5) unfolding cart_rows_unique_def
    by (rule update_first_map) (rule cart_row_key)
  have f: "find (cart_row uid pid)
       (map (\<lambda>r. if cart_row uid pid r then r\<lparr>c_quantity := q\<rparr> else r) (cart_items s))
       = Some (r\<lparr>c_quantity := q\<rparr>)"
    using r unfolding get_cart_item_def
    by (rule find_map_update) (simp add: cart_row_def)
  show "let s' = s\<lparr>cart_items :=
                        map (\<lambda>r. if cart_row uid pid r then r\<lparr>c_quantity := q\<rparr> else r) (cart_items s)\<rparr>
          in update_cart_item_quantity s identity pid (Some kvs) True =
               (Inr \<lparr>co_status = 200,
                     co_item = Some \<lparr>c_user_id = uid, c_product_id = pid, c_quantity = q\<rparr>,
                     co_cart = cart_of s' uid\<rparr>, s')
             \<and> get_cart_item s' uid pid = Some \<lparr>c_user_id = uid, c_product_id = pid, c_quantity = q\<rparr>"
    using assms(1-4) a r
    by (simp add: update_cart_item_quantity_def Let_def d get_cart_item_def f rq)
qed

theorem update_cart_item_quantity_spec_witness:
  "update_cart_item_quantity demo_db ''2'' 99 (Some [(''quantity'', JInt 3)]) True = (Inl NotFound, demo_db)
   \<and> update_cart_item_quantity demo_db ''2'' 1 (Some [(''quantity'', JInt 0)]) True =
       (Inr \<lparr>co_status = 200, co_item = None,
             co_cart = [\<lparr>c_user_id = 2, c_product_id = 2, c_quantity = 1\<rparr>]\<rparr>,
        demo_db\<lparr>cart_items := [\<lparr>c_user_id = 2, c_product_id = 2, c_quantity = 1\<rparr>]\<rparr>)
   \<and> update_cart_item_quantity demo_db ''2'' 1 (Some [(''quantity'', JStr ''5'')]) True =
       (Inr \<lparr>co_status = 200, co_item = Some \<lparr>c_user_id = 2, c_product_id = 1, c_quantity = 5\<rparr>,
             co_cart = [\<lparr>c_user_id = 2, c_product_id = 1, c_quantity = 5\<rparr>,
                        \<lparr>c_user_id = 2, c_product_id = 2, c_quantity = 1\<rparr>]\<rparr>,
        demo_db\<lparr>cart_items := [\<lparr>c_user_id = 2, c_product_id = 1, c_quantity = 5\<rparr>,
                                \<lparr>c_user_id = 2, c_product_id = 2, c_quantity = 1\<rparr>]\<rparr>)"
proof -
  have q3: "map_of [(''quantity'', JInt 3)] ''quantity'' = Some (JInt 3)" "py_int (JInt 3) = Some 3"
    and q0: "map_of [(''quantity'', JInt 0)] ''quantity'' = Some (JInt 0)" "py_int (JInt 0) = Some 0"
    and q5: "map_of [(''quantity'', JStr ''5'')] ''quantity'' = Some (JStr ''5'')" "py_int (JStr ''5'') = Some 5"
    by (simp_all add: py_int_str_defs)
  have rows: "cart_items demo_db =
      [\<lparr>c_user_id = 2, c_product_id = 1, c_quantity = 2\<rparr>, \<lparr>c_user_id = 2, c_product_id = 2, c_quantity = 1\<rparr>]"
    by (simp add: demo_db_def)
  have g99: "get_cart_item demo_db 2 99 = None"
    and g1: "get_cart_item demo_db 2 1 \<noteq> None"
    by (simp_all add: get_cart_item_def cart_row_def rows)
  show ?thesis
    using update_cart_item_quantity_spec [OF identity_2 demo_bob q3 demo_cart_rows_unique, of 99 True]
      update_cart_item_quantity_spec [OF identity_2 demo_bob q0 demo_cart_rows_unique, of 1 True]
      update_cart_item_quantity_spec [OF identity_2 demo_bob q5 demo_cart_rows_unique, of 1 True]
      g99 g1
    by (simp add: Let_def cart_of_def cart_row_def rows)
qed

subsection \<open>Wishlist\<close>






subsection \<open>Adding to the cart\<close>

text \<open>
  The quantity is checked before the product is looked up: for a product that has no row
  and a quantity of 0 the answer is Validation, not NotFound.
\<close>

theorem add_to_cart_quantity_first_counterexample:
  "get_product demo_db 99 = None
   \<and> add_to_cart demo_db ''2'' (Some [(''productId'', JInt 99), (''quantity'', JInt 0)]) True
       = (Inl Validation, demo_db)"
  by (simp add: add_to_cart_def identity_2 demo_bob dict_get_def dict_get_default_def)
     (simp add: get_product_def demo_defs)

text \<open>
  C4, amended. For an existing user and a body whose product id and quantity convert to
  integers: adding to the cart answers Validation when the quantity is below 1; for a
  quantity of at least 1 it answers NotFound when the product has no row and Forbidden when
  the user is the product's seller; otherwise, the commit going through, an existing row
  of the user for the product has its quantity raised by the given one and the answer has
  status 200, and with no such row a row with the given quantity is appended and the answer
  has status 201; the answer carries the affected row and the user's whole cart; no other
  row or table changes. The store has at most one cart row per user and product and every
  cart quantity is at least 1.
\<close>

theorem add_to_cart_spec:
  assumes "py_int_str identity = Some uid" and "get_user s uid = Some u"
    and "kvs \<noteq> []"
    and "py_int (dict_get kvs ''productId'') = Some pid"
    and "py_int (dict_get_default kvs ''quantity'' (JInt 1)) = Some q"
    and "cart_rows_unique s" and "quantity_positive s"
  shows "(q < 1 \<longrightarrow> add_to_cart s identity (Some kvs) c = (Inl Validation, s))
    \<and> (1 \<le> q \<and> get_product s pid = None \<longrightarrow> add_to_cart s identity (Some kvs) c = (Inl NotFound, s))
    \<and> (1 \<le> q \<and> (\<exists>p. get_product s pid = Some p \<and> p_seller_id p = uid) \<longrightarrow>
          add_to_cart s identity (Some kvs) c = (Inl Forbidden, s))
    \<and> (1 \<le> q \<and> (\<exists>p. get_product s pid = Some p \<and> p_seller_id p \<noteq> uid)
          \<and> (\<exists>old. get_cart_item s uid pid = Some old) \<longrightarrow>
         (let n = c_quantity (the (get_cart_item s uid pid)) + q;
              s' = s\<lparr>cart_items :=
                        map (\<lambda>r. if cart_row uid pid r then r\<lparr>c_quantity := c_quantity r + q\<rparr> else r)
                          (cart_items s)\<rparr>
          in add_to_cart s identity (Some kvs) True =
               (Inr \<lparr>co_status = 200,
                     co_item = Some \<lparr>c_user_id = uid, c_product_id = pid, c_quantity = n\<rparr>,
                     co_cart = cart_of s' uid\<rparr>, s')))
    \<and> (1 \<le> q \<and> (\<exists>p. get_product s pid = Some p \<and> p_seller_id p \<noteq> uid)
          \<and> get_cart_item s uid pid = None \<longrightarrow>
         (let s' = s\<lparr>cart_items := cart_items s @ [\<lparr>c_user_id = uid, c_product_id = pid, c_quantity = q\<rparr>]\<rparr>
          in add_to_cart s identity (Some kvs) True =
               (Inr \<lparr>co_status = 201,
                     co_item = Some \<lparr>c_user_id = uid, c_product_id = pid, c_quantity = q\<rparr>,
                     co_cart = cart_of s' uid\<rparr>, s')))"
proof -
  have nn: "dict_get kvs ''productId'' \<noteq> JNull"
    using assms(4) by auto
  note pre = assms(1-5) nn
  show ?thesis
  proof (intro conjI impI)
    assume "q < 1"
    with pre show "add_to_cart s identity (Some kvs) c = (Inl Validation, s)"
      by (simp add: add_to_cart_def)
  next
    assume "1 \<le> q \<and> get_product s pid = None"
    with pre show "add_to_cart s identity (Some kvs) c = (Inl NotFound, s)"
      by (simp add: add_to_cart_def)
  next
    assume "1 \<le> q \<and> (\<exists>p. get_product s pid = Some p \<and> p_seller_id p = uid)"
    with pre show "add_to_cart s identity (Some kvs) c = (Inl Forbidden, s)"
      by (auto simp: add_to_cart_def)
  next
    assume a: "1 \<le> q \<and> (\<exists>p. get_product s pid = Some p \<and> p_seller_id p \<noteq> uid)
          \<and> (\<exists>old. get_cart_item s uid pid = Some old)"
    then obtain p old where p: "get_product s pid = Some p" "p_seller_id p \<noteq> uid"
      and old: "get_cart_item s uid pid = Some old" by auto
    have "old \<in> set (cart_items s)"
      using old by (auto simp: get_cart_item_def find_Some_iff)
    with assms(7) have pos: "1 \<le> c_quantity old" by (simp add: quantity_positive_def)
    have oq: "old\<lparr>c_quantity := c_quantity old + q\<rparr>
        = \<lparr>c_user_id = uid, c_product_id = pid, c_quantity = c_quantity old + q\<rparr>"
      using get_cart_item_row [OF old] by (cases old) simp
    have d: "update_first (cart_row uid pid) (\<lambda>c. c\<lparr>c_quantity := c_quantity c + q\<rparr>) (cart_items s)
        = map (\<lambda>r. if cart_row uid pid r then r\<lparr>c_quantity := c_quantity r + q\<rparr> else r) (cart_items s)"
      using assms(6) unfolding cart_rows_unique_def
      by (rule update_first_map) (rule cart_row_key)
    show "let n = c_quantity (the (get_cart_item s uid pid)) + q;
              s' = s\<lparr>cart_items :=
                        map (\<lambda>r. if cart_row uid pid r then r\<lparr>c_quantity := c_quantity r + q\<rparr> else r)
                          (cart_items s)\<rparr>
          in add_to_cart s identity (Some kvs) True =
               (Inr \<lparr>co_status = 200,
                     co_item = Some \<lparr>c_user_id = uid, c_product_id = pid, c_quantity = n\<rparr>,
                     co_cart = cart_of s' uid\<rparr>, s')"
      using pre a p old pos
      by (simp add: add_to_cart_def Let_def d oq)
  next
    assume a: "1 \<le> q \<and> (\<exists>p. get_product s pid = Some p \<and> p_seller_id p \<noteq> uid)
          \<and> get_cart_item s uid pid = None"
    then obtain p where p: "get_product s pid = Some p" "p_seller_id p \<noteq> uid" by auto
    show "let s' = s\<lparr>cart_items := cart_items s @ [\<lparr>c_user_id = uid, c_product_id = pid, c_quantity = q\<rparr>]\<rparr>
          in add_to_cart s identity (Some kvs) True =
               (Inr \<lparr>co_status = 201,
                     co_item = Some \<lparr>c_user_id = uid, c_product_id = pid, c_quantity = q\<rparr>,
                     co_cart = cart_of s' uid\<rparr>, s')"
      using pre a p
      by (simp add: add_to_cart_def Let_def)
  qed
qed


theorem add_to_cart_spec_witness:
  "add_to_cart demo_db ''2'' (Some [(''productId'', JInt 1), (''quantity'', JInt 0)]) True
       = (Inl Validation, demo_db)
   \<and> add_to_cart demo_db ''2'' (Some [(''productId'', JInt 99)]) True = (Inl NotFound, demo_db)
   \<and> add_to_cart demo_db ''2'' (Some [(''productId'', JInt 3)]) True = (Inl Forbidden, demo_db)
   \<and> add_to_cart demo_db ''2'' (Some [(''productId'', JInt 1), (''quantity'', JInt 3)]) True
       = (Inr \<lparr>co_status = 200,
               co_item = Some \<lparr>c_user_id = 2, c_product_id = 1, c_quantity = 5\<rparr>,
               co_cart = [\<lparr>c_user_id = 2, c_product_id = 1, c_quantity = 5\<rparr>,
                          \<lparr>c_user_id = 2, c_product_id = 2, c_quantity = 1\<rparr>]\<rparr>,
          demo_db\<lparr>cart_items := [\<lparr>c_user_id = 2, c_product_id = 1, c_quantity = 5\<rparr>,
                                  \<lparr>c_user_id = 2, c_product_id = 2, c_quantity = 1\<rparr>]\<rparr>)
   \<and> add_to_cart demo_db ''1'' (Some [(''productId'', JInt 3)]) True
       = (Inr \<lparr>co_status = 201,
               co_item = Some \<lparr>c_user_id = 1, c_product_id = 3, c_quantity = 1\<rparr>,
               co_cart = [\<lparr>c_user_id = 1, c_product_id = 3, c_quantity = 1\<rparr>]\<rparr>,
          demo_db\<lparr>cart_items := [\<lparr>c_user_id = 2, c_product_id = 1, c_quantity = 2\<rparr>,
                                  \<lparr>c_user_id = 2, c_product_id = 2, c_quantity = 1\<rparr>,
                                  \<lparr>c_user_id = 1, c_product_id = 3, c_quantity = 1\<rparr>]\<rparr>)"
proof -
  have k10: "[(''productId'', JInt 1), (''quantity'', JInt 0)] \<noteq> []"
      "py_int (dict_get [(''productId'', JInt 1), (''quantity'', JInt 0)] ''productId'') = Some 1"
      "py_int (dict_get_default [(''productId'', JInt 1), (''quantity'', JInt 0)] ''quantity'' (JInt 1)) = Some 0"
    and k99: "[(''productId'', JInt 99)] \<noteq> []"
      "py_int (dict_get [(''productId'', JInt 99)] ''productId'') = Some 99"
      "py_int (dict_get_default [(''productId'', JInt 99)] ''quantity'' (JInt 1)) = Some 1"
    and k3: "[(''productId'', JInt 3)] \<noteq> []"
      "py_int (dict_get [(''productId'', JInt 3)] ''productId'') = Some 3"
      "py_int (dict_get_default [(''productId'', JInt 3)] ''quantity'' (JInt 1)) = Some 1"
    and k13: "[(''productId'', JInt 1), (''quantity'', JInt 3)] \<noteq> []"
      "py_int (dict_get [(''productId'', JInt 1), (''quantity'', JInt 3)] ''productId'') = Some 1"
      "py_int (dict_get_default [(''productId'', JInt 1), (''quantity'', JInt 3)] ''quantity'' (JInt 1)) = Some 3"
    by (simp_all add: dict_get_def dict_get_default_def)
  have qp: "quantity_positive demo_db"
    by (simp add: quantity_positive_def demo_defs)
  have p: "get_product demo_db 99 = None" "get_product demo_db 1 = Some lamp"
    "get_product demo_db 3 = Some book" "p_seller_id lamp = 1" "p_seller_id book = 2"
    by (simp_all add: get_product_def demo_defs)
  have rows: "cart_items demo_db =
      [\<lparr>c_user_id = 2, c_product_id = 1, c_quantity = 2\<rparr>, \<lparr>c_user_id = 2, c_product_id = 2, c_quantity = 1\<rparr>]"
    by (simp add: demo_db_def)
  have g: "get_cart_item demo_db 2 1 = Some \<lparr>c_user_id = 2, c_product_id = 1, c_quantity = 2\<rparr>"
    "get_cart_item demo_db 1 3 = None"
    by (simp_all add: get_cart_item_def cart_row_def rows)
  show ?thesis
    using add_to_cart_spec [OF identity_2 demo_bob k10 demo_cart_rows_unique qp, of True]
      add_to_cart_spec [OF identity_2 demo_bob k99 demo_cart_rows_unique qp, of True]
      add_to_cart_spec [OF identity_2 demo_bob k3 demo_cart_rows_unique qp, of True]
      add_to_cart_spec [OF identity_2 demo_bob k13 demo_cart_rows_unique qp, of True]
      add_to_cart_spec [OF identity_1 demo_alice k3 demo_cart_rows_unique qp, of True]
    by (simp add: p g Let_def cart_of_def cart_row_def rows)
qed

subsection \<open>Registration\<close>

lemma find_not_None: "find P xs \<noteq> None \<longleftrightarrow> (\<exists>x \<in> set xs. P x)"
  by (auto simp: find_None_iff)











subsection \<open>Profile update\<close>


text \<open>
  The uniqueness query looks for the username as it was sent, and the trimmed username is
  what is stored: with a leading blank, bob takes alice's username.
\<close>

lemma update_profile_trimmed_duplicate:
  "update_profile demo_db ''2'' (Some [(''username'', JStr '' alice'')]) True
     = (Inr (bob\<lparr>u_username := ''alice''\<rparr>), demo_db\<lparr>users := [alice, bob\<lparr>u_username := ''alice''\<rparr>]\<rparr>)"
  by (simp add: update_profile_def identity_2 demo_bob profile_username_def profile_image_def
        py_strip_def is_space_def)
     (simp add: demo_defs)











subsection \<open>Invariants of the data model\<close>



































subsubsection \<open>Prices\<close>


subsubsection \<open>Quantities\<close>


subsubsection \<open>Own products\<close>











subsubsection \<open>One cart row per user and product\<close>



subsubsection \<open>Reachable stores\<close>




subsection \<open>Product listing\<close>

lemma lower_length: "length (lower s) = length s"
  by (simp add: lower_def)




lemma lower_append: "lower (a @ b) = lower a @ lower b"
  by (simp add: lower_def)














end
